theory Spec2Isabelle
  imports Complex_Main "HOL-Library.AList" "HOL-Library.Char_ord" "HOL-Library.List_Lexorder"
    "HOL-Library.Multiset"
begin

section \<open>Strings\<close>

text \<open>
  Go strings are byte sequences; \<open>string\<close> is a list of bytes. The functions below are
  \<^verbatim>\<open>strings.HasPrefix\<close>, \<^verbatim>\<open>strings.Contains\<close>, \<^verbatim>\<open>strings.Split(s, ".")\<close>,
  \<^verbatim>\<open>strings.Join(xs, ".")\<close> and \<^verbatim>\<open>strings.Trim(s, ".")\<close> of the Go standard library.
\<close>

definition HasPrefix :: "string \<Rightarrow> string \<Rightarrow> bool" where
  "HasPrefix s p = (take (length p) s = p)"

fun Contains :: "string \<Rightarrow> string \<Rightarrow> bool" where
  "Contains [] sub = (sub = [])"
| "Contains (c # cs) sub = (HasPrefix (c # cs) sub \<or> Contains cs sub)"

text \<open>\<open>split_acc cur s\<close> splits \<open>s\<close> at every dot; \<open>cur\<close> is the reversed current piece.\<close>

fun split_acc :: "string \<Rightarrow> string \<Rightarrow> string list" where
  "split_acc cur [] = [rev cur]"
| "split_acc cur (c # cs) =
     (if c = CHR ''.'' then rev cur # split_acc [] cs else split_acc (c # cur) cs)"

definition Split :: "string \<Rightarrow> string list" where
  "Split s = split_acc [] s"

fun Join :: "string list \<Rightarrow> string" where
  "Join [] = []"
| "Join [x] = x"
| "Join (x # y # ys) = x @ ''.'' @ Join (y # ys)"

definition Trim :: "string \<Rightarrow> string" where
  "Trim s = rev (dropWhile (\<lambda>c. c = CHR ''.'') (rev (dropWhile (\<lambda>c. c = CHR ''.'') s)))"

section \<open>Values and their type names\<close>

text \<open>
  A Go \<^verbatim>\<open>interface{}\<close> value carries its dynamic type. The model covers \<^verbatim>\<open>nil\<close>, strings,
  booleans, the ten integer types, the two float types and slices (with their static
  element type). A float is \<open>FNaN\<close> or a number; only its identity matters here, no
  arithmetic is done on it. An integer is kept with its value, in the range of its kind.
\<close>

datatype ikind = IInt | IInt8 | IInt16 | IInt32 | IInt64
  | IUint | IUint8 | IUint16 | IUint32 | IUint64

datatype fkind = FFloat32 | FFloat64

datatype gofloat = FNaN | FNum real

datatype gotype = TString | TBool | TInt ikind | TFloat fkind | TInterface | TSlice gotype

datatype val = VNil | VString string | VBool bool | VInt ikind int | VFloat fkind gofloat
  | VSlice gotype "val list"

fun ikind_name :: "ikind \<Rightarrow> string" where
  "ikind_name IInt = ''int''"
| "ikind_name IInt8 = ''int8''"
| "ikind_name IInt16 = ''int16''"
| "ikind_name IInt32 = ''int32''"
| "ikind_name IInt64 = ''int64''"
| "ikind_name IUint = ''uint''"
| "ikind_name IUint8 = ''uint8''"
| "ikind_name IUint16 = ''uint16''"
| "ikind_name IUint32 = ''uint32''"
| "ikind_name IUint64 = ''uint64''"

fun fkind_name :: "fkind \<Rightarrow> string" where
  "fkind_name FFloat32 = ''float32''"
| "fkind_name FFloat64 = ''float64''"

text \<open>\<^verbatim>\<open>reflect.Type.Name()\<close>: empty for unnamed types (interfaces, slices).\<close>

fun type_Name :: "gotype \<Rightarrow> string" where
  "type_Name TString = ''string''"
| "type_Name TBool = ''bool''"
| "type_Name (TInt k) = ikind_name k"
| "type_Name (TFloat k) = fkind_name k"
| "type_Name TInterface = ''''"
| "type_Name (TSlice t) = ''''"

fun getTypeOf :: "val \<Rightarrow> string" where
  "getTypeOf VNil = ''''"
| "getTypeOf (VString s) = ''string''"
| "getTypeOf (VBool b) = ''bool''"
| "getTypeOf (VInt k n) = ikind_name k"
| "getTypeOf (VFloat k x) = fkind_name k"
| "getTypeOf (VSlice t xs) = ''['' @ type_Name t @ '']''"

text \<open>
  The three patterns are used with \<^verbatim>\<open>MatchString\<close>. The first two are not anchored:
  \<^verbatim>\<open>u{0,1}int(64|32|16|8|)\<close> matches exactly the texts that contain \<^verbatim>\<open>int\<close>, and
  \<^verbatim>\<open>float(32|64|)\<close> exactly those that contain \<^verbatim>\<open>float\<close>. The third, \<^verbatim>\<open>^\[.*\]$\<close>,
  matches a text that starts with an opening and ends with a closing bracket.
\<close>

definition typeIntPattern :: "string \<Rightarrow> bool" where
  "typeIntPattern s = Contains s ''int''"

definition typeFloatPattern :: "string \<Rightarrow> bool" where
  "typeFloatPattern s = Contains s ''float''"

definition typeSlicePattern :: "string \<Rightarrow> bool" where
  "typeSlicePattern s =
     (2 \<le> length s \<and> hd s = CHR ''['' \<and> last s = CHR '']'' \<and> CHR 0x0A \<notin> set s)"

definition manyMarker :: string where
  "manyMarker = ''__many__''"

definition isCompatibleType :: "string \<Rightarrow> string \<Rightarrow> bool" where
  "isCompatibleType typeA typeB =
     (if typeIntPattern typeA then typeIntPattern typeB
      else if typeFloatPattern typeA then typeFloatPattern typeB
      else if typeSlicePattern typeA then typeSlicePattern typeB
      else typeA = typeB)"

text \<open>
  \<^verbatim>\<open>reflect.DeepEqual\<close> on two interface values: different dynamic types are never equal,
  floats compare with \<^verbatim>\<open>==\<close> (a NaN equals nothing), slices compare element by element.
  The model has values only: a nil slice is not told from an empty one, and two slices
  are never the same array.
\<close>

fun float_eq :: "gofloat \<Rightarrow> gofloat \<Rightarrow> bool" where
  "float_eq (FNum a) (FNum b) = (a = b)"
| "float_eq _ _ = False"

fun DeepEqual :: "val \<Rightarrow> val \<Rightarrow> bool"
  and DeepEqual_list :: "val list \<Rightarrow> val list \<Rightarrow> bool" where
  "DeepEqual VNil w = (w = VNil)"
| "DeepEqual (VString a) w = (case w of VString b \<Rightarrow> a = b | _ \<Rightarrow> False)"
| "DeepEqual (VBool a) w = (case w of VBool b \<Rightarrow> a = b | _ \<Rightarrow> False)"
| "DeepEqual (VInt k a) w = (case w of VInt k' b \<Rightarrow> k = k' \<and> a = b | _ \<Rightarrow> False)"
| "DeepEqual (VFloat k a) w = (case w of VFloat k' b \<Rightarrow> k = k' \<and> float_eq a b | _ \<Rightarrow> False)"
| "DeepEqual (VSlice t xs) w =
     (case w of VSlice t' ys \<Rightarrow> t = t' \<and> DeepEqual_list xs ys | _ \<Rightarrow> False)"
| "DeepEqual_list [] ys = (ys = [])"
| "DeepEqual_list (x # xs) ys =
     (case ys of [] \<Rightarrow> False | y # ys' \<Rightarrow> DeepEqual x y \<and> DeepEqual_list xs ys')"

section \<open>Errors\<close>

text \<open>
  A Go \<^verbatim>\<open>panic\<close> and a returned \<^verbatim>\<open>error\<close> are both values of the model; the text is
  the message of the source without its arguments.
\<close>

datatype err = Panic string | Error string

section \<open>Width normalisation\<close>

text \<open>Conversion of any integer to \<^verbatim>\<open>int64\<close> wraps around at 64 bits.\<close>

definition to_int64 :: "int \<Rightarrow> int" where
  "to_int64 n = (n + 2 ^ 63) mod 2 ^ 64 - 2 ^ 63"

text \<open>
  \<^verbatim>\<open>generalizeScalarType\<close>: a value whose type name matches the integer pattern is converted
  by \<^verbatim>\<open>reflect.Value.Convert\<close> to \<^verbatim>\<open>int64\<close>, then one whose type name matches the float
  pattern to \<^verbatim>\<open>float64\<close>. \<^verbatim>\<open>Convert\<close> panics on a slice (whose type name, such as
  \<^verbatim>\<open>[int]\<close>, matches the pattern too).
\<close>

definition convertInt :: "val \<Rightarrow> err + val" where
  "convertInt v =
     (if typeIntPattern (getTypeOf v)
      then (case v of VInt k n \<Rightarrow> Inr (VInt IInt64 (to_int64 n))
            | _ \<Rightarrow> Inl (Panic ''reflect: cannot convert to int64''))
      else Inr v)"

definition convertFloat :: "val \<Rightarrow> err + val" where
  "convertFloat v =
     (if typeFloatPattern (getTypeOf v)
      then (case v of VFloat k x \<Rightarrow> Inr (VFloat FFloat64 x)
            | _ \<Rightarrow> Inl (Panic ''reflect: cannot convert to float64''))
      else Inr v)"

definition generalizeScalarType :: "val \<Rightarrow> err + val" where
  "generalizeScalarType v =
     (case convertInt v of Inl e \<Rightarrow> Inl e | Inr v' \<Rightarrow> convertFloat v')"

text \<open>The element loops of \<^verbatim>\<open>generalizeType\<close>: the first failing element ends the loop.\<close>

fun list_loop :: "(val \<Rightarrow> err + val) \<Rightarrow> val list \<Rightarrow> err + val list" where
  "list_loop f [] = Inr []"
| "list_loop f (item # rest) =
     (case f item of Inl e \<Rightarrow> Inl e
      | Inr y \<Rightarrow> (case list_loop f rest of Inl e \<Rightarrow> Inl e | Inr ys \<Rightarrow> Inr (y # ys)))"

definition elem_string :: "val \<Rightarrow> err + val" where
  "elem_string item =
     (case item of VString s \<Rightarrow> Inr item
      | _ \<Rightarrow> Inl (Error ''string list contanins non-strings''))"

definition elem_int :: "val \<Rightarrow> err + val" where
  "elem_int item =
     (case generalizeScalarType item of Inl e \<Rightarrow> Inl e
      | Inr g \<Rightarrow> (case g of VInt k n \<Rightarrow>
            if k = IInt64 then Inr g else Inl (Error ''int list contanins non-int64'')
          | _ \<Rightarrow> Inl (Error ''int list contanins non-int64'')))"

definition elem_float :: "val \<Rightarrow> err + val" where
  "elem_float item =
     (case generalizeScalarType item of Inl e \<Rightarrow> Inl e
      | Inr g \<Rightarrow> (case g of VFloat k x \<Rightarrow>
            if k = FFloat64 then Inr g else Inl (Error ''float list contanins non-float'')
          | _ \<Rightarrow> Inl (Error ''float list contanins non-float'')))"

definition elem_bool :: "val \<Rightarrow> err + val" where
  "elem_bool item =
     (case item of VBool b \<Rightarrow> Inr item
      | _ \<Rightarrow> Inl (Error ''bool list contanins non-bool''))"

definition int_list_types :: "string list" where
  "int_list_types = [''[int]'', ''[int64]'', ''[int32]'', ''[int16]'', ''[int8]'',
     ''[uint]'', ''[uint64]'', ''[uint32]'', ''[uint16]'', ''[uint8]'']"

definition typed_list :: "gotype \<Rightarrow> err + val list \<Rightarrow> err + val" where
  "typed_list t r = (case r of Inl e \<Rightarrow> Inl e | Inr ys \<Rightarrow> Inr (VSlice t ys))"

text \<open>
  \<^verbatim>\<open>generalizeType\<close>: \<^verbatim>\<open>reflect.TypeOf(nil).Kind()\<close> panics, and so does the type
  assertion \<^verbatim>\<open>val.([]interface{})\<close> on a slice of any other element type.
\<close>

definition generalizeType :: "val \<Rightarrow> string \<Rightarrow> err + val" where
  "generalizeType v defType =
     (case v of
        VNil \<Rightarrow> Inl (Panic ''nil pointer dereference'')
      | VSlice t interfaces \<Rightarrow>
          if t \<noteq> TInterface then Inl (Panic ''interface conversion'')
          else if defType = ''[string]'' then typed_list TString (list_loop elem_string interfaces)
          else if defType \<in> set int_list_types
            then typed_list (TInt IInt64) (list_loop elem_int interfaces)
          else if defType = ''[float32]'' \<or> defType = ''[float64]''
            then typed_list (TFloat FFloat64) (list_loop elem_float interfaces)
          else if defType = ''[bool]'' then typed_list TBool (list_loop elem_bool interfaces)
          else Inl (Error ''unsupported list type'')
      | _ \<Rightarrow> generalizeScalarType v)"

definition maybeMakeInterfaceList :: "val \<Rightarrow> val" where
  "maybeMakeInterfaceList v = (case v of VSlice t xs \<Rightarrow> VSlice TInterface xs | _ \<Rightarrow> v)"

section \<open>Defaults and key resolution\<close>

text \<open>
  A \<^verbatim>\<open>DefaultMapping\<close> is a Go map; the model keeps it as an association list with
  distinct string keys, whose order stands for the order in which one \<^verbatim>\<open>range\<close> loop
  visits the map (Go leaves that order open). A value of the map is a nested mapping, a
  \<^verbatim>\<open>DefaultEntry\<close>, or anything else (\<open>DOther\<close>, such as \<^verbatim>\<open>struct{}{}\<close>).
\<close>

record DefaultEntry =
  Default :: val
  NeedsRestart :: bool
  Docs :: string
  Validator :: "(val \<Rightarrow> err option) option"

datatype dnode = DEntry DefaultEntry | DMapping "(string \<times> dnode) list" | DOther

type_synonym DefaultMapping = "(string \<times> dnode) list"

fun getDefaultSectionByKeys :: "string list \<Rightarrow> DefaultMapping \<Rightarrow> DefaultMapping option" where
  "getDefaultSectionByKeys [] dm = Some dm"
| "getDefaultSectionByKeys (k # ks) dm =
     (case (case map_of dm k of Some c \<Rightarrow> Some c | None \<Rightarrow> map_of dm manyMarker) of
        None \<Rightarrow> None
      | Some child \<Rightarrow>
          (case child of DMapping sec \<Rightarrow> getDefaultSectionByKeys ks sec | _ \<Rightarrow> None))"

definition getDefaultByKeys :: "string list \<Rightarrow> DefaultMapping \<Rightarrow> err + DefaultEntry option" where
  "getDefaultByKeys ks dm =
     (if ks = [] then Inr None
      else case getDefaultSectionByKeys (butlast ks) dm of
        None \<Rightarrow> Inr None
      | Some sec \<Rightarrow>
          if last ks = manyMarker then Inl (Panic ''__many__ used for default entries'')
          else (case map_of sec (last ks) of
                  None \<Rightarrow> Inr None
                | Some child \<Rightarrow> (case child of DEntry e \<Rightarrow> Inr (Some e) | _ \<Rightarrow> Inr None)))"

definition getDefaultByKey :: "string \<Rightarrow> DefaultMapping \<Rightarrow> err + DefaultEntry option" where
  "getDefaultByKey k dm = getDefaultByKeys (Split k) dm"

definition prefixKey :: "string \<Rightarrow> string \<Rightarrow> string" where
  "prefixKey sec k = (if sec = [] then k else Trim sec @ ''.'' @ Trim k)"

section \<open>The data tree\<close>

text \<open>
  The data tree is a nested Go map whose values are sub-maps (\<open>Sect\<close>) or anything else
  (\<open>Leaf\<close>); again an association list with distinct string keys, in visiting order.
  A map held by several handles is addressed by its path from the root.
\<close>

datatype node = Leaf val | Sect "(string \<times> node) list"

type_synonym tree = "(string \<times> node) list"

text \<open>
  \<^verbatim>\<open>keys\<close> visits every leaf, depth first, and calls \<open>fn\<close> with its path. The two
  callbacks of the source read the leaf and may replace it (\<^verbatim>\<open>section[lastKey] = ...\<close>), so
  \<open>fn\<close> gets the leaf and an accumulator and returns the new leaf and accumulator.
\<close>

fun keys :: "tree \<Rightarrow> string list \<Rightarrow> (string list \<Rightarrow> val \<Rightarrow> 'a \<Rightarrow> err + val \<times> 'a) \<Rightarrow> 'a
    \<Rightarrow> err + tree \<times> 'a" where
  "keys [] prefix fn acc = Inr ([], acc)"
| "keys ((k, Sect sec) # rest) prefix fn acc =
     (case keys sec (prefix @ [k]) fn acc of
        Inl e \<Rightarrow> Inl e
      | Inr (sec', acc') \<Rightarrow>
          (case keys rest prefix fn acc' of
             Inl e \<Rightarrow> Inl e
           | Inr (rest', acc'') \<Rightarrow> Inr ((k, Sect sec') # rest', acc'')))"
| "keys ((k, Leaf v) # rest) prefix fn acc =
     (case fn (prefix @ [k]) v acc of
        Inl e \<Rightarrow> Inl e
      | Inr (v', acc') \<Rightarrow>
          (case keys rest prefix fn acc' of
             Inl e \<Rightarrow> Inl e
           | Inr (rest', acc'') \<Rightarrow> Inr ((k, Leaf v') # rest', acc'')))"

section \<open>Validation and defaulting\<close>

text \<open>
  The set of default-sourced keys is a Go map used as a set. A handle made by
  \<^verbatim>\<open>Section\<close> leaves the field unset: \<open>None\<close> is that nil map (reading and deleting are
  allowed on it, storing panics).
\<close>

type_synonym dkeys = "string set option"

definition dk_member :: "string \<Rightarrow> dkeys \<Rightarrow> bool" where
  "dk_member k dk = (case dk of None \<Rightarrow> False | Some S \<Rightarrow> k \<in> S)"

definition dk_delete :: "string \<Rightarrow> dkeys \<Rightarrow> dkeys" where
  "dk_delete k dk = (case dk of None \<Rightarrow> None | Some S \<Rightarrow> Some (S - {k}))"

text \<open>
  \<^verbatim>\<open>mergeDefaults\<close> changes \<open>base\<close> and \<open>defaultKeys\<close> in place, so what it has stored
  before an error stays stored: the model returns the error together with both.
  \<open>mergeDefaults base overlay todo\<close> is the outer loop with the entries \<open>todo\<close> of
  \<open>overlay\<close> left to visit; \<open>mergeBaseKeys\<close> is the inner loop over \<open>baseKeys\<close>.
\<close>

fun mergeDefaults :: "tree \<Rightarrow> DefaultMapping \<Rightarrow> DefaultMapping \<Rightarrow> dkeys \<Rightarrow> string
    \<Rightarrow> err option \<times> tree \<times> dkeys"
  and mergeBaseKeys :: "tree \<Rightarrow> dnode \<Rightarrow> string list \<Rightarrow> dkeys \<Rightarrow> string
    \<Rightarrow> err option \<times> tree \<times> dkeys" where
  "mergeDefaults base overlay [] dk prefix = (None, base, dk)"
| "mergeDefaults base overlay ((overlayKey, overlayChild) # todo) dk prefix =
     (let baseKeys =
        (if overlayKey = manyMarker
         then filter (\<lambda>baseKey. map_of overlay baseKey = None) (map fst base)
         else [overlayKey])
      in case mergeBaseKeys base overlayChild baseKeys dk prefix of
           (Some e, base', dk') \<Rightarrow> (Some e, base', dk')
         | (None, base', dk') \<Rightarrow> mergeDefaults base' overlay todo dk' prefix)"
| "mergeBaseKeys base overlayChild [] dk prefix = (None, base, dk)"
| "mergeBaseKeys base (DMapping ov) (baseKey # baseKeys) dk prefix =
     (let baseSection = (case map_of base baseKey of Some (Sect s) \<Rightarrow> s | _ \<Rightarrow> [])
      in case mergeDefaults baseSection ov ov dk (prefixKey prefix baseKey) of
           (Some e, s', dk') \<Rightarrow> (Some e, AList.update baseKey (Sect s') base, dk')
         | (None, s', dk') \<Rightarrow>
             mergeBaseKeys (AList.update baseKey (Sect s') base) (DMapping ov) baseKeys dk' prefix)"
| "mergeBaseKeys base (DEntry entry) (baseKey # baseKeys) dk prefix =
     (if map_of base baseKey \<noteq> None
      then mergeBaseKeys base (DEntry entry) baseKeys dk prefix
      else case generalizeType (maybeMakeInterfaceList (Default entry))
                  (getTypeOf (Default entry)) of
             Inl e \<Rightarrow> (Some e, base, dk)
           | Inr fixedDefault \<Rightarrow>
               (case dk of
                  None \<Rightarrow> (Some (Panic ''assignment to entry in nil map''),
                            AList.update baseKey (Leaf fixedDefault) base, dk)
                | Some S \<Rightarrow>
                    mergeBaseKeys (AList.update baseKey (Leaf fixedDefault) base) (DEntry entry)
                      baseKeys (Some (insert (prefixKey prefix baseKey) S)) prefix))"
| "mergeBaseKeys base DOther (baseKey # baseKeys) dk prefix =
     mergeBaseKeys base DOther baseKeys dk prefix"

text \<open>The callback of \<^verbatim>\<open>validationChecker\<close>: checks one leaf and returns its normal form.\<close>

definition check_leaf :: "DefaultMapping \<Rightarrow> string list \<Rightarrow> val \<Rightarrow> err + val" where
  "check_leaf dm ks child =
     (let fullKey = Join ks in
      case getDefaultByKey fullKey dm of
        Inl e \<Rightarrow> Inl e
      | Inr None \<Rightarrow> Inl (Error ''no default for key'')
      | Inr (Some defaultEntry) \<Rightarrow>
          (let defType = getTypeOf (Default defaultEntry) in
           if defType = [] then Inl (Error ''no default found for key'')
           else if \<not> isCompatibleType (getTypeOf child) defType
             then Inl (Error ''type mismatch'')
           else case generalizeType child defType of
               Inl e \<Rightarrow> Inl e
             | Inr generalizedChild \<Rightarrow>
                 (case Validator defaultEntry of
                    None \<Rightarrow> Inr generalizedChild
                  | Some f \<Rightarrow>
                      (case f generalizedChild of
                         Some e \<Rightarrow> Inl e
                       | None \<Rightarrow> Inr generalizedChild))))"

text \<open>
  On an error of the first pass the tree handed in is given up by every caller, so the
  model returns it as it was; the set of default keys has not been touched then.
\<close>

definition validationChecker :: "tree \<Rightarrow> DefaultMapping \<Rightarrow> dkeys \<Rightarrow> err option \<times> tree \<times> dkeys" where
  "validationChecker mem dm dk =
     (case keys mem [] (\<lambda>ks child u. case check_leaf dm ks child of
                                       Inl e \<Rightarrow> Inl e | Inr g \<Rightarrow> Inr (g, u)) () of
        Inl e \<Rightarrow> (Some e, mem, dk)
      | Inr (mem', u) \<Rightarrow> mergeDefaults mem' dm dm dk [])"

section \<open>The store\<close>

text \<open>
  A callback is a Go function value; the model names it by a number. The mutex is not a
  field of the model: the operations report when they take and release it.
\<close>

record keyChangedEvent =
  ev_fn :: nat
  ev_key :: string

type_synonym registry = "(string \<times> (nat \<times> keyChangedEvent) list) list"

record Config =
  "section" :: string
  defaults :: DefaultMapping
  memory :: tree
  callbackCount :: nat
  changeCallbacks :: registry
  defaultKeys :: dkeys
  version :: int

datatype event = Lock | Unlock | Call keyChangedEvent

text \<open>
  Handles of one family (a store and its section views) hold the same Go map as their
  \<open>memory\<close>; an operation of the model returns the state of the handle it ran on.
\<close>

text \<open>\<^verbatim>\<open>e.Wrapf(err, "validate")\<close>; a panic is not an error value and passes through.\<close>

fun Wrapf :: "err \<Rightarrow> err" where
  "Wrapf (Error m) = Error (''validate: '' @ m)"
| "Wrapf (Panic m) = Panic m"

text \<open>
  \<open>open_config\<close> is the function \<^verbatim>\<open>open\<close> of the source, which validates into a fresh
  set of default keys.
\<close>

definition open_config :: "int \<Rightarrow> tree \<Rightarrow> DefaultMapping \<Rightarrow> err + Config" where
  "open_config ver mem dm =
     (case validationChecker mem dm (Some {}) of
        (Some e, mem', dk) \<Rightarrow> Inl (Wrapf e)
      | (None, mem', dk) \<Rightarrow>
          Inr \<lparr>section = [], defaults = dm, memory = mem', callbackCount = 0,
               changeCallbacks = [], defaultKeys = dk, version = ver\<rparr>)"

text \<open>
  A decoder is modelled by what its \<^verbatim>\<open>Decode\<close> returns; \<open>None\<close> is the nil decoder.
  A default mapping of the model is never the nil map, which \<^verbatim>\<open>Open\<close> refuses.
\<close>

type_synonym Decoder = "(err + int \<times> tree) option"

definition decode :: "Decoder \<Rightarrow> err + int \<times> tree" where
  "decode dec = (case dec of None \<Rightarrow> Inr (0, []) | Some r \<Rightarrow> r)"

definition Open :: "Decoder \<Rightarrow> DefaultMapping \<Rightarrow> err + Config" where
  "Open dec dm =
     (case decode dec of Inl e \<Rightarrow> Inl e | Inr (ver, mem) \<Rightarrow> open_config ver mem dm)"

subsection \<open>Addressing a cell of the tree\<close>

text \<open>
  \<^verbatim>\<open>splitKeyRecursive\<close> returns the map that holds the key and the key's last part. That
  map is a reference into the tree; the model returns its path from the root instead,
  \<open>None\<close> for the nil map. \<open>load\<close> reads \<^verbatim>\<open>parent[base]\<close>, \<open>store\<close> is the assignment
  \<^verbatim>\<open>parent[base] = ...\<close> and \<open>remove\<close> is \<^verbatim>\<open>delete(parent, base)\<close>.
\<close>

fun splitKeyRecursive :: "string list \<Rightarrow> tree \<Rightarrow> bool \<Rightarrow> (string list \<times> string) option" where
  "splitKeyRecursive [] mem sectionAllowed = None"
| "splitKeyRecursive (k # ks) mem sectionAllowed =
     (case map_of mem k of
        None \<Rightarrow> None
      | Some (Leaf v) \<Rightarrow> if ks \<noteq> [] then None else Some ([], k)
      | Some (Sect sec) \<Rightarrow>
          if sectionAllowed \<and> ks = [] then Some ([], k)
          else (case splitKeyRecursive ks sec sectionAllowed of
                  None \<Rightarrow> None
                | Some (path, base) \<Rightarrow> Some (k # path, base)))"

definition splitKey :: "Config \<Rightarrow> string \<Rightarrow> bool \<Rightarrow> (string list \<times> string) option" where
  "splitKey cfg k sectionAllowed = splitKeyRecursive (Split k) (memory cfg) sectionAllowed"

fun load :: "tree \<Rightarrow> string list \<Rightarrow> string \<Rightarrow> node option" where
  "load mem [] base = map_of mem base"
| "load mem (k # path) base =
     (case map_of mem k of Some (Sect sec) \<Rightarrow> load sec path base | _ \<Rightarrow> None)"

fun store :: "tree \<Rightarrow> string list \<Rightarrow> string \<Rightarrow> node \<Rightarrow> tree" where
  "store mem [] base n = AList.update base n mem"
| "store mem (k # path) base n =
     (case map_of mem k of
        Some (Sect sec) \<Rightarrow> AList.update k (Sect (store sec path base n)) mem
      | _ \<Rightarrow> mem)"

fun remove :: "tree \<Rightarrow> string list \<Rightarrow> string \<Rightarrow> tree" where
  "remove mem [] base = AList.delete base mem"
| "remove mem (k # path) base =
     (case map_of mem k of
        Some (Sect sec) \<Rightarrow> AList.update k (Sect (remove sec path base)) mem
      | _ \<Rightarrow> mem)"

text \<open>
  The value read from a cell: a missing entry reads as \<^verbatim>\<open>nil\<close>. The cells read below
  come from \<open>splitKey\<close> without sections or have just been assigned a leaf.
\<close>

definition load_val :: "tree \<Rightarrow> string list \<Rightarrow> string \<Rightarrow> val" where
  "load_val mem path base = (case load mem path base of Some (Leaf v) \<Rightarrow> v | _ \<Rightarrow> VNil)"

definition get :: "Config \<Rightarrow> string \<Rightarrow> err + val" where
  "get cfg k0 =
     (let k = prefixKey (section cfg) k0 in
      case splitKey cfg k False of
        None \<Rightarrow>
          (case getDefaultByKey k (defaults cfg) of
             Inl e \<Rightarrow> Inl e
           | Inr (Some defEntry) \<Rightarrow> Inr (Default defEntry)
           | Inr None \<Rightarrow> Inl (Panic ''bug: invalid config key''))
      | Some (path, base) \<Rightarrow> Inr (load_val (memory cfg) path base))"

subsection \<open>Change callbacks\<close>

definition bucket_callbacks :: "Config \<Rightarrow> string \<Rightarrow> keyChangedEvent list" where
  "bucket_callbacks cfg ckey =
     (if ckey = [] \<or> HasPrefix ckey (section cfg)
      then (case map_of (changeCallbacks cfg) ckey of
              Some bucket \<Rightarrow> map snd bucket
            | None \<Rightarrow> [])
      else [])"

definition gatherCallbacks :: "Config \<Rightarrow> string \<Rightarrow> keyChangedEvent list" where
  "gatherCallbacks cfg k = bucket_callbacks cfg k @ bucket_callbacks cfg []"

subsection \<open>Setting a key\<close>

text \<open>
  \<^verbatim>\<open>punchHole\<close> creates the missing maps on the way to the key, in place: they stay when
  a later step fails.
\<close>

fun punchHole :: "string list \<Rightarrow> tree \<Rightarrow> err option \<times> tree \<times> (string list \<times> string) option" where
  "punchHole [] mem = (None, mem, None)"
| "punchHole [k] mem = (None, mem, Some ([], k))"
| "punchHole (k # k' # ks) mem =
     (case map_of mem k of
        Some (Leaf v) \<Rightarrow> (Some (Error ''trying to override value with section''), mem, None)
      | Some (Sect sec) \<Rightarrow>
          (case punchHole (k' # ks) sec of
             (e, sec', r) \<Rightarrow>
               (e, AList.update k (Sect sec') mem, map_option (\<lambda>(path, base). (k # path, base)) r))
      | None \<Rightarrow>
          (case punchHole (k' # ks) [] of
             (e, sec', r) \<Rightarrow>
               (e, AList.update k (Sect sec') mem, map_option (\<lambda>(path, base). (k # path, base)) r)))"

text \<open>
  The block of \<^verbatim>\<open>setLocked\<close> under \<^verbatim>\<open>if parent == nil\<close>: it ends the call (left, with the
  tree as it is then) or yields the tree and the cell to go on with.
\<close>

definition materialize :: "Config \<Rightarrow> string \<Rightarrow> err \<times> tree + tree \<times> string list \<times> string" where
  "materialize cfg k =
     (case splitKey cfg k False of
        Some (path, base) \<Rightarrow> Inr (memory cfg, path, base)
      | None \<Rightarrow>
          (case getDefaultByKey k (defaults cfg) of
             Inl e \<Rightarrow> Inl (e, memory cfg)
           | Inr None \<Rightarrow> Inl (Panic ''bug: invalid config key'', memory cfg)
           | Inr (Some def) \<Rightarrow>
               (case punchHole (Split k) (memory cfg) of
                  (Some e, mem', r) \<Rightarrow> Inl (e, mem')
                | (None, mem', None) \<Rightarrow> Inl (Panic ''assignment to entry in nil map'', mem')
                | (None, mem', Some (path, base)) \<Rightarrow>
                    Inr (store mem' path base (Leaf (Default def)), path, base))))"

definition run_validator :: "DefaultEntry \<Rightarrow> val \<Rightarrow> err option" where
  "run_validator defEntry v = (case Validator defEntry of None \<Rightarrow> None | Some f \<Rightarrow> f v)"

text \<open>
  \<^verbatim>\<open>setLocked\<close> returns the error (if any), the handle's state afterwards and the events
  in their order: the deferred unlock runs before the deferred loop over the callbacks.
\<close>

definition setLocked :: "Config \<Rightarrow> string \<Rightarrow> val \<Rightarrow> err option \<times> Config \<times> event list" where
  "setLocked cfg k0 v =
     (let k = prefixKey (section cfg) k0 in
      case materialize cfg k of
        Inl (e, mem') \<Rightarrow> (Some e, cfg\<lparr>memory := mem'\<rparr>, [Lock, Unlock])
      | Inr (mem', path, base) \<Rightarrow>
          (let cur = load_val mem' path base;
               defType = getTypeOf cur;
               valType = getTypeOf v
           in if \<not> isCompatibleType defType valType
              then (Some (Error ''wrong type in set''), cfg\<lparr>memory := mem'\<rparr>, [Lock, Unlock])
              else
                (let cfg1 = cfg\<lparr>memory := mem', defaultKeys := dk_delete k (defaultKeys cfg)\<rparr>
                 in if DeepEqual v cur then (None, cfg1, [Lock, Unlock])
                    else (case getDefaultByKey k (defaults cfg) of
                            Inl e \<Rightarrow> (Some e, cfg1, [Lock, Unlock])
                          | Inr None \<Rightarrow>
                              (Some (Panic ''nil pointer dereference''), cfg1, [Lock, Unlock])
                          | Inr (Some defEntry) \<Rightarrow>
                              (case run_validator defEntry v of
                                 Some e \<Rightarrow> (Some e, cfg1, [Lock, Unlock])
                               | None \<Rightarrow>
                                   (let cfg2 = cfg1\<lparr>memory := store mem' path base (Leaf v)\<rparr>
                                    in (None, cfg2,
                                        [Lock, Unlock] @ map Call (gatherCallbacks cfg2 k))))))))"

text \<open>The typed setters and the generic one hand their value to \<^verbatim>\<open>setLocked\<close>.\<close>

definition SetBool :: "Config \<Rightarrow> string \<Rightarrow> bool \<Rightarrow> err option \<times> Config \<times> event list" where
  "SetBool cfg k b = setLocked cfg k (VBool b)"

definition SetString :: "Config \<Rightarrow> string \<Rightarrow> string \<Rightarrow> err option \<times> Config \<times> event list" where
  "SetString cfg k s = setLocked cfg k (VString s)"

definition SetInt :: "Config \<Rightarrow> string \<Rightarrow> int \<Rightarrow> err option \<times> Config \<times> event list" where
  "SetInt cfg k n = setLocked cfg k (VInt IInt64 n)"

definition SetFloat :: "Config \<Rightarrow> string \<Rightarrow> gofloat \<Rightarrow> err option \<times> Config \<times> event list" where
  "SetFloat cfg k x = setLocked cfg k (VFloat FFloat64 x)"

definition SetBools :: "Config \<Rightarrow> string \<Rightarrow> bool list \<Rightarrow> err option \<times> Config \<times> event list" where
  "SetBools cfg k bs = setLocked cfg k (VSlice TBool (map VBool bs))"

definition SetStrings :: "Config \<Rightarrow> string \<Rightarrow> string list \<Rightarrow> err option \<times> Config \<times> event list" where
  "SetStrings cfg k ss = setLocked cfg k (VSlice TString (map VString ss))"


definition SetFloats :: "Config \<Rightarrow> string \<Rightarrow> gofloat list \<Rightarrow> err option \<times> Config \<times> event list" where
  "SetFloats cfg k xs = setLocked cfg k (VSlice (TFloat FFloat64) (map (VFloat FFloat64) xs))"


subsection \<open>Keys\<close>

text \<open>
  The method \<^verbatim>\<open>(cfg *Config) keys()\<close>: the callback never fails, \<^verbatim>\<open>sort.Strings\<close> orders
  the byte strings lexicographically.
\<close>

definition collect_key :: "string \<Rightarrow> string list \<Rightarrow> val \<Rightarrow> string list \<Rightarrow> err + val \<times> string list" where
  "collect_key sec ks v allKeys =
     (let fullKey = Join ks in
      if HasPrefix fullKey sec then Inr (v, allKeys @ [Join ks]) else Inr (v, allKeys))"

definition Config_keys :: "Config \<Rightarrow> err + string list" where
  "Config_keys cfg =
     (case keys (memory cfg) [] (collect_key (section cfg)) [] of
        Inl e \<Rightarrow> Inl (Panic ''Keys() failed internally'')
      | Inr (mem', allKeys) \<Rightarrow> Inr (sort allKeys))"

definition Keys :: "Config \<Rightarrow> err + string list" where
  "Keys cfg = Config_keys cfg"

subsection \<open>Reload\<close>

text \<open>
  The loop of \<^verbatim>\<open>Reload\<close> that compares the old and the new value of every key and gathers
  the callbacks of the keys that changed.
\<close>

fun changed_callbacks :: "Config \<Rightarrow> Config \<Rightarrow> string list \<Rightarrow> err + keyChangedEvent list" where
  "changed_callbacks oldCfg cfg [] = Inr []"
| "changed_callbacks oldCfg cfg (k # rest) =
     (case get oldCfg k of
        Inl e \<Rightarrow> Inl e
      | Inr oldVal \<Rightarrow>
          (case get cfg k of
             Inl e \<Rightarrow> Inl e
           | Inr newVal \<Rightarrow>
               (case changed_callbacks oldCfg cfg rest of
                  Inl e \<Rightarrow> Inl e
                | Inr cbs \<Rightarrow>
                    Inr ((if \<not> DeepEqual oldVal newVal then gatherCallbacks cfg k else []) @ cbs))))"

text \<open>
  \<^verbatim>\<open>Reload\<close> defers the unlock to its return, so everything it does, the calls of the
  callbacks included, lies between \<open>Lock\<close> and \<open>Unlock\<close>. The validation works on the
  handle's own set of default keys.
\<close>

definition Reload :: "Config \<Rightarrow> Decoder \<Rightarrow> err option \<times> Config \<times> event list" where
  "Reload cfg dec =
     (case decode dec of
        Inl e \<Rightarrow> (Some e, cfg, [Lock, Unlock])
      | Inr (ver, mem) \<Rightarrow>
          (case validationChecker mem (defaults cfg) (defaultKeys cfg) of
             (Some e, mem', dk') \<Rightarrow> (Some (Wrapf e), cfg\<lparr>defaultKeys := dk'\<rparr>, [Lock, Unlock])
           | (None, mem', dk') \<Rightarrow>
               (let oldCfg = cfg\<lparr>defaultKeys := dk'\<rparr>;
                    cfg' = cfg\<lparr>memory := mem', version := ver, defaultKeys := dk'\<rparr>
                in case Config_keys cfg' of
                     Inl e \<Rightarrow> (Some e, cfg', [Lock, Unlock])
                   | Inr ks \<Rightarrow>
                       (case changed_callbacks oldCfg cfg' ks of
                          Inl e \<Rightarrow> (Some e, cfg', [Lock, Unlock])
                        | Inr callbacks \<Rightarrow>
                            (None, cfg', [Lock] @ map Call callbacks @ [Unlock])))))"

subsection \<open>Events\<close>

definition AddEvent :: "Config \<Rightarrow> string \<Rightarrow> nat \<Rightarrow> err + Config \<times> nat" where
  "AddEvent cfg k0 f =
     (let ev = \<lparr>ev_fn = f, ev_key = k0\<rparr>;
          k = (if k0 \<noteq> [] then prefixKey (section cfg) k0 else k0);
          bad = (if k0 \<noteq> []
                 then (case getDefaultByKey k (defaults cfg) of
                         Inl e \<Rightarrow> Some e
                       | Inr None \<Rightarrow> Some (Panic ''bug: invalid config key'')
                       | Inr (Some d) \<Rightarrow> None)
                 else None)
      in case bad of
           Some e \<Rightarrow> Inl e
         | None \<Rightarrow>
             (let callbacks = (case map_of (changeCallbacks cfg) k of
                                 Some bucket \<Rightarrow> bucket | None \<Rightarrow> []);
                  oldCount = callbackCount cfg
              in Inr (cfg\<lparr>changeCallbacks :=
                             AList.update k (AList.update oldCount ev callbacks) (changeCallbacks cfg),
                           callbackCount := oldCount + 1\<rparr>,
                      oldCount)))"

text \<open>\<^verbatim>\<open>IsDefault\<close> looks the key up as it is given, without the handle's prefix.\<close>

definition IsDefault :: "Config \<Rightarrow> string \<Rightarrow> bool" where
  "IsDefault cfg k = dk_member k (defaultKeys cfg)"

subsection \<open>Merge\<close>

text \<open>
  \<^verbatim>\<open>reflect.DeepEqual\<close> on two default mappings built apart: maps are equal when they
  have the same keys with equal values, structs when their fields are equal, and two
  function values only when both are nil.
\<close>

fun DeepEqual_dnode :: "dnode \<Rightarrow> dnode \<Rightarrow> bool"
  and DeepEqual_dmap :: "DefaultMapping \<Rightarrow> DefaultMapping \<Rightarrow> bool" where
  "DeepEqual_dnode (DEntry a) w =
     (case w of
        DEntry b \<Rightarrow> DeepEqual (Default a) (Default b) \<and> NeedsRestart a = NeedsRestart b
          \<and> Docs a = Docs b
          \<and> (case Validator a of None \<Rightarrow> True | Some f \<Rightarrow> False)
          \<and> (case Validator b of None \<Rightarrow> True | Some f \<Rightarrow> False)
      | _ \<Rightarrow> False)"
| "DeepEqual_dnode (DMapping xs) w =
     (case w of DMapping ys \<Rightarrow> length xs = length ys \<and> DeepEqual_dmap xs ys | _ \<Rightarrow> False)"
| "DeepEqual_dnode DOther w = (case w of DOther \<Rightarrow> True | _ \<Rightarrow> False)"
| "DeepEqual_dmap [] ys = True"
| "DeepEqual_dmap ((k, a) # xs) ys =
     (case map_of ys k of None \<Rightarrow> False | Some b \<Rightarrow> DeepEqual_dnode a b \<and> DeepEqual_dmap xs ys)"

definition DeepEqual_defaults :: "DefaultMapping \<Rightarrow> DefaultMapping \<Rightarrow> bool" where
  "DeepEqual_defaults a b = (length a = length b \<and> DeepEqual_dmap a b)"

text \<open>The loop of \<^verbatim>\<open>Merge\<close>; it returns the callbacks gathered so far also at a panic.\<close>

fun merge_loop :: "Config \<Rightarrow> Config \<Rightarrow> string list \<Rightarrow> keyChangedEvent list
    \<Rightarrow> err option \<times> Config \<times> keyChangedEvent list" where
  "merge_loop cfg other [] callbacks = (None, cfg, callbacks)"
| "merge_loop cfg other (k # rest) callbacks =
     (if dk_member k (defaultKeys other) then merge_loop cfg other rest callbacks
      else case get cfg k of
        Inl e \<Rightarrow> (Some e, cfg, callbacks)
      | Inr oldVal \<Rightarrow>
          (case get other k of
             Inl e \<Rightarrow> (Some e, cfg, callbacks)
           | Inr newVal \<Rightarrow>
               if \<not> DeepEqual newVal oldVal
               then (let callbacks' = callbacks @ gatherCallbacks cfg k in
                     case splitKey cfg k False of
                       None \<Rightarrow> (Some (Panic ''assignment to entry in nil map''), cfg, callbacks')
                     | Some (path, base) \<Rightarrow>
                         merge_loop (cfg\<lparr>memory := store (memory cfg) path base (Leaf newVal)\<rparr>)
                           other rest callbacks')
               else merge_loop cfg other rest callbacks))"

text \<open>
  \<^verbatim>\<open>Merge\<close> returns the error, the target afterwards and the events. The unlock is
  deferred only after the comparison of the defaults: the refusal returns with the lock
  taken. The source handle is read only; it is no part of the result.
\<close>

definition Merge :: "Config \<Rightarrow> Config \<Rightarrow> err option \<times> Config \<times> event list" where
  "Merge cfg other =
     (if \<not> DeepEqual_defaults (defaults cfg) (defaults other)
      then (Some (Error ''refusing to merge configs with different defaults''), cfg, [Lock])
      else case Config_keys cfg of
        Inl e \<Rightarrow> (Some e, cfg, [Lock, Unlock])
      | Inr ks \<Rightarrow>
          (case merge_loop cfg other ks [] of
             (e, cfg', callbacks) \<Rightarrow> (e, cfg', [Lock, Unlock] @ map Call callbacks)))"

subsection \<open>Section views\<close>

text \<open>
  \<^verbatim>\<open>Section\<close> copies every bucket of the parent, giving each callback the next number of
  its own counter, which starts at the parent's.
\<close>

fun copy_bucket :: "(nat \<times> keyChangedEvent) list \<Rightarrow> nat \<Rightarrow> (nat \<times> keyChangedEvent) list \<times> nat" where
  "copy_bucket [] n = ([], n)"
| "copy_bucket ((i, callback) # rest) n =
     (case copy_bucket rest (n + 1) of (childBucket, n') \<Rightarrow> ((n, callback) # childBucket, n'))"

fun copy_buckets :: "registry \<Rightarrow> nat \<Rightarrow> registry \<times> nat" where
  "copy_buckets [] n = ([], n)"
| "copy_buckets ((k, bucket) # rest) n =
     (case copy_bucket bucket n of
        (childBucket, n') \<Rightarrow>
          (case copy_buckets rest n' of (child, n'') \<Rightarrow> ((k, childBucket) # child, n'')))"

definition Section :: "Config \<Rightarrow> string \<Rightarrow> Config" where
  "Section cfg sec =
     (case copy_buckets (changeCallbacks cfg) (callbackCount cfg) of
        (childChangeCallbacks, childCallbackCount) \<Rightarrow>
          \<lparr>section = sec, defaults = defaults cfg, memory = memory cfg,
           callbackCount = childCallbackCount, changeCallbacks = childChangeCallbacks,
           defaultKeys = None, version = 0\<rparr>)"

definition IsValidKey :: "Config \<Rightarrow> string \<Rightarrow> err + bool" where
  "IsValidKey cfg k0 =
     (case getDefaultByKey (prefixKey (section cfg) k0) (defaults cfg) of
        Inl e \<Rightarrow> Inl e
      | Inr r \<Rightarrow> Inr (r \<noteq> None))"

subsection \<open>Cast\<close>

text \<open>
  \<^verbatim>\<open>strconv.ParseInt(val, 10, 64)\<close>, \<^verbatim>\<open>strconv.ParseFloat(val, 64)\<close> and
  \<^verbatim>\<open>strconv.ParseBool(val)\<close> belong to the Go library; \<^verbatim>\<open>Cast\<close> takes them as
  parameters. The type switch names eight integer types (not \<^verbatim>\<open>int8\<close>, \<^verbatim>\<open>uint8\<close>), the two
  float types, \<^verbatim>\<open>bool\<close> and \<^verbatim>\<open>string\<close>; every other default ends in \<^verbatim>\<open>return nil, nil\<close>.
\<close>

record parsers =
  ParseInt :: "string \<Rightarrow> err + int"
  ParseFloat :: "string \<Rightarrow> err + gofloat"
  ParseBool :: "string \<Rightarrow> err + bool"

definition Cast :: "parsers \<Rightarrow> Config \<Rightarrow> string \<Rightarrow> string \<Rightarrow> err + val" where
  "Cast ps cfg k0 text =
     (case getDefaultByKey (prefixKey (section cfg) k0) (defaults cfg) of
        Inl e \<Rightarrow> Inl e
      | Inr None \<Rightarrow> Inl (Panic ''bug: invalid config key'')
      | Inr (Some entry) \<Rightarrow>
          (case Default entry of
             VInt k n \<Rightarrow>
               if k \<in> {IInt, IInt16, IInt32, IInt64, IUint, IUint16, IUint32, IUint64}
               then (case ParseInt ps text of Inl e \<Rightarrow> Inl e | Inr i \<Rightarrow> Inr (VInt IInt64 i))
               else Inr VNil
           | VFloat k x \<Rightarrow>
               (case ParseFloat ps text of Inl e \<Rightarrow> Inl e | Inr y \<Rightarrow> Inr (VFloat FFloat64 y))
           | VBool b \<Rightarrow> (case ParseBool ps text of Inl e \<Rightarrow> Inl e | Inr c \<Rightarrow> Inr (VBool c))
           | VString s \<Rightarrow> Inr (VString text)
           | _ \<Rightarrow> Inr VNil))"

subsection \<open>Reset\<close>

text \<open>
  \<^verbatim>\<open>Reset\<close>: when the key names an entry, the source stores \<^verbatim>\<open>struct{}{}\<close> under the
  key in \<^verbatim>\<open>cfg.defaults\<close>, unlocks and goes on in \<^verbatim>\<open>setLocked\<close>. Before that point no
  unlock is deferred. For a section, \<^verbatim>\<open>mergeDefaults\<close> runs on the map that held it.
\<close>

definition Reset :: "Config \<Rightarrow> string \<Rightarrow> err option \<times> Config \<times> event list" where
  "Reset cfg k0 =
     (let k = prefixKey (section cfg) k0 in
      case getDefaultByKey k (defaults cfg) of
        Inl e \<Rightarrow> (Some e, cfg, [Lock])
      | Inr (Some entry) \<Rightarrow>
          (case setLocked (cfg\<lparr>defaults := AList.update k DOther (defaults cfg)\<rparr>) k (Default entry) of
             (e, cfg', evs) \<Rightarrow> (e, cfg', [Lock, Unlock] @ evs))
      | Inr None \<Rightarrow>
          if k = [] then
            (case mergeDefaults [] (defaults cfg) (defaults cfg) (defaultKeys cfg) (section cfg) of
               (e, mem', dk') \<Rightarrow> (e, cfg\<lparr>memory := mem', defaultKeys := dk'\<rparr>, [Lock, Unlock]))
          else
            (case getDefaultSectionByKeys (butlast (Split k)) (defaults cfg) of
               None \<Rightarrow> (Some (Error ''no such section''), cfg, [Lock, Unlock])
             | Some defaultSection \<Rightarrow>
                 (case splitKey cfg k True of
                    None \<Rightarrow> (Some (Panic ''bug: invalid config key''), cfg, [Lock, Unlock])
                  | Some (path, base) \<Rightarrow>
                      (let mem1 = remove (memory cfg) path base;
                           parent = (case path of [] \<Rightarrow> Some mem1
                                     | _ \<Rightarrow> (case load mem1 (butlast path) (last path) of
                                               Some (Sect s) \<Rightarrow> Some s | _ \<Rightarrow> None))
                       in case parent of
                            None \<Rightarrow> (Some (Panic ''bug: invalid config key''), cfg, [Lock, Unlock])
                          | Some p \<Rightarrow>
                              (case mergeDefaults p defaultSection defaultSection
                                      (defaultKeys cfg) (section cfg) of
                                 (e, p', dk') \<Rightarrow>
                                   (e, cfg\<lparr>memory := (case path of [] \<Rightarrow> p'
                                            | _ \<Rightarrow> store mem1 (butlast path) (last path) (Sect p')),
                                          defaultKeys := dk'\<rparr>,
                                    [Lock, Unlock]))))))"

section \<open>Canonical values\<close>

text \<open>
  The canonical values: strings, booleans, \<^verbatim>\<open>int64\<close>, \<^verbatim>\<open>float64\<close>, and the typed slices
  \<^verbatim>\<open>[]string\<close>, \<^verbatim>\<open>[]bool\<close>, \<^verbatim>\<open>[]int64\<close>, \<^verbatim>\<open>[]float64\<close> whose elements all have the
  slice's element type.
\<close>

fun canonical_elem :: "gotype \<Rightarrow> val \<Rightarrow> bool" where
  "canonical_elem TString (VString s) = True"
| "canonical_elem TBool (VBool b) = True"
| "canonical_elem (TInt k) (VInt k' n) = (k = IInt64 \<and> k' = IInt64)"
| "canonical_elem (TFloat k) (VFloat k' x) = (k = FFloat64 \<and> k' = FFloat64)"
| "canonical_elem t v = False"

fun canonical :: "val \<Rightarrow> bool" where
  "canonical VNil = False"
| "canonical (VString s) = True"
| "canonical (VBool b) = True"
| "canonical (VInt k n) = (k = IInt64)"
| "canonical (VFloat k x) = (k = FFloat64)"
| "canonical (VSlice t xs) = list_all (canonical_elem t) xs"



section \<open>Example stores\<close>

text \<open>An entry with a default and nothing else: \<^verbatim>\<open>DefaultEntry{Default: v}\<close>.\<close>

definition plain_entry :: "val \<Rightarrow> dnode" where
  "plain_entry v = DEntry \<lparr>Default = v, NeedsRestart = False, Docs = [], Validator = None\<rparr>"

text \<open>The defaults \<^verbatim>\<open>{"a": int64(1)}\<close> and the store \<^verbatim>\<open>Open(nil, defaults)\<close> returns.\<close>

definition defaults_a :: DefaultMapping where
  "defaults_a = [(''a'', plain_entry (VInt IInt64 1))]"

definition store_a :: Config where
  "store_a = \<lparr>section = [], defaults = defaults_a, memory = [(''a'', Leaf (VInt IInt64 1))],
     callbackCount = 0, changeCallbacks = [], defaultKeys = Some {''a''}, version = 0\<rparr>"

text \<open>
  Defaults with a plain key and a wildcard section whose entry has a default of the
  unsupported type \<^verbatim>\<open>[][]string\<close>: \<^verbatim>\<open>{"a": "x", "m": {"__many__": {"l": [][]string{}}}}\<close>.
  \<open>reload_store0\<close> is the store opened from no input, \<open>reload_store\<close> the same after
  \<^verbatim>\<open>SetString("a", "y")\<close>; \<open>reload_input\<close> is the tree \<^verbatim>\<open>{"m": {"foo": {}}}\<close>.
\<close>

definition reload_defaults :: DefaultMapping where
  "reload_defaults = [(''a'', plain_entry (VString ''x'')),
     (''m'', DMapping [(''__many__'', DMapping [(''l'', plain_entry (VSlice (TSlice TString) []))])])]"

definition reload_store0 :: Config where
  "reload_store0 = \<lparr>section = [], defaults = reload_defaults,
     memory = [(''a'', Leaf (VString ''x'')), (''m'', Sect [])],
     callbackCount = 0, changeCallbacks = [], defaultKeys = Some {''a''}, version = 0\<rparr>"

definition reload_store :: Config where
  "reload_store = reload_store0\<lparr>memory := [(''a'', Leaf (VString ''y'')), (''m'', Sect [])],
     defaultKeys := Some {}\<rparr>"

definition reload_input :: tree where
  "reload_input = [(''m'', Sect [(''foo'', Sect [])])]"

text \<open>
  Defaults with a wildcard section, \<^verbatim>\<open>{"m": {"__many__": {"path": ""}}}\<close>; the target
  is opened from no input, the source from \<^verbatim>\<open>{"m": {"x": {"path": "p"}}}\<close>.
\<close>

definition merge_defaults :: DefaultMapping where
  "merge_defaults = [(''m'', DMapping [(''__many__'', DMapping [(''path'', plain_entry (VString []))])])]"

definition merge_target :: Config where
  "merge_target = \<lparr>section = [], defaults = merge_defaults, memory = [(''m'', Sect [])],
     callbackCount = 0, changeCallbacks = [], defaultKeys = Some {}, version = 0\<rparr>"

definition merge_source :: Config where
  "merge_source = merge_target\<lparr>memory := [(''m'', Sect [(''x'', Sect [(''path'', Leaf (VString ''p''))])])]\<rparr>"

text \<open>The store \<open>store_a\<close> after \<^verbatim>\<open>AddEvent("a", f)\<close>, with 7 standing for \<^verbatim>\<open>f\<close>.\<close>

definition event_a :: keyChangedEvent where
  "event_a = \<lparr>ev_fn = 7, ev_key = ''a''\<rparr>"

definition store_a_sub :: Config where
  "store_a_sub = store_a\<lparr>callbackCount := 1, changeCallbacks := [(''a'', [(0, event_a)])]\<rparr>"

text \<open>
  The defaults \<^verbatim>\<open>{"a": {"b": "x"}}\<close> and the store opened from \<^verbatim>\<open>{"a": {"b": "y"}}\<close>.
\<close>

definition reset_defaults :: DefaultMapping where
  "reset_defaults = [(''a'', DMapping [(''b'', plain_entry (VString ''x''))])]"

definition reset_store :: Config where
  "reset_store = \<lparr>section = [], defaults = reset_defaults,
     memory = [(''a'', Sect [(''b'', Leaf (VString ''y''))])],
     callbackCount = 0, changeCallbacks = [], defaultKeys = Some {}, version = 0\<rparr>"

text \<open>
  The defaults \<^verbatim>\<open>{"string_slice": []string{"a", "b", "c"}}\<close> and the store opened from
  no input.
\<close>

definition cast_defaults :: DefaultMapping where
  "cast_defaults = [(''string_slice'',
     plain_entry (VSlice TString [VString ''a'', VString ''b'', VString ''c'']))]"

definition cast_store :: Config where
  "cast_store = \<lparr>section = [], defaults = cast_defaults,
     memory = [(''string_slice'', Leaf (VSlice TString [VString ''a'', VString ''b'', VString ''c'']))],
     callbackCount = 0, changeCallbacks = [], defaultKeys = Some {''string_slice''}, version = 0\<rparr>"

text \<open>
  The defaults \<^verbatim>\<open>{"a": {"b": {"c": "x"}}}\<close> and the store opened from no input.
\<close>

definition section_defaults :: DefaultMapping where
  "section_defaults = [(''a'', DMapping [(''b'', DMapping [(''c'', plain_entry (VString ''x''))])])]"

definition section_store :: Config where
  "section_store = \<lparr>section = [], defaults = section_defaults,
     memory = [(''a'', Sect [(''b'', Sect [(''c'', Leaf (VString ''x''))])])],
     callbackCount = 0, changeCallbacks = [], defaultKeys = Some {''a.b.c''}, version = 0\<rparr>"

text \<open>
  The defaults \<^verbatim>\<open>{"a": {"b": 1}}\<close> and the store opened from the input \<^verbatim>\<open>{"a.b": 5}\<close>,
  whose only key has a dot in its name.
\<close>

definition dotted_defaults :: DefaultMapping where
  "dotted_defaults = [(''a'', DMapping [(''b'', plain_entry (VInt IInt 1))])]"

definition dotted_store :: Config where
  "dotted_store = \<lparr>section = [], defaults = dotted_defaults,
     memory = [(''a.b'', Leaf (VInt IInt64 5)), (''a'', Sect [(''b'', Leaf (VInt IInt64 1))])],
     callbackCount = 0, changeCallbacks = [], defaultKeys = Some {''a.b''}, version = 0\<rparr>"

text \<open>
  The defaults \<^verbatim>\<open>{"a": 1, "b": 2}\<close> with the store's map once visited in the order
  \<^verbatim>\<open>b, a\<close> and once in the order \<^verbatim>\<open>a, b\<close>.
\<close>

definition defaults_ab :: DefaultMapping where
  "defaults_ab = [(''a'', plain_entry (VInt IInt64 1)), (''b'', plain_entry (VInt IInt64 2))]"

definition store_ba :: Config where
  "store_ba = \<lparr>section = [], defaults = defaults_ab,
     memory = [(''b'', Leaf (VInt IInt64 2)), (''a'', Leaf (VInt IInt64 1))],
     callbackCount = 0, changeCallbacks = [], defaultKeys = Some {''a'', ''b''}, version = 0\<rparr>"

definition store_ab :: Config where
  "store_ab = store_ba\<lparr>memory := [(''a'', Leaf (VInt IInt64 1)), (''b'', Leaf (VInt IInt64 2))]\<rparr>"

section \<open>The same map in another order\<close>

text \<open>
  Two association lists stand for the same Go map when one is a rearrangement of the
  other, at every level. \<open>take_entry k t\<close> takes the entry of \<open>k\<close> out of \<open>t\<close>.
  \<open>leaf_paths\<close> lists the paths of the leaves in the order \<open>keys\<close> visits them.
\<close>

fun take_entry :: "string \<Rightarrow> tree \<Rightarrow> (node \<times> tree) option" where
  "take_entry k [] = None"
| "take_entry k ((k', n) # rest) =
     (if k = k' then Some (n, rest)
      else (case take_entry k rest of None \<Rightarrow> None | Some (m, rest') \<Rightarrow> Some (m, (k', n) # rest')))"

fun tree_eqv :: "tree \<Rightarrow> tree \<Rightarrow> bool"
  and node_eqv :: "node \<Rightarrow> node \<Rightarrow> bool" where
  "tree_eqv [] us = (us = [])"
| "tree_eqv ((k, n) # ts) us =
     (case take_entry k us of None \<Rightarrow> False | Some (m, us') \<Rightarrow> node_eqv n m \<and> tree_eqv ts us')"
| "node_eqv (Leaf v) m = (m = Leaf v)"
| "node_eqv (Sect s) m = (case m of Sect s' \<Rightarrow> tree_eqv s s' | _ \<Rightarrow> False)"

fun leaf_paths :: "tree \<Rightarrow> string list \<Rightarrow> string list list" where
  "leaf_paths [] prefix = []"
| "leaf_paths ((k, Sect sec) # rest) prefix = leaf_paths sec (prefix @ [k]) @ leaf_paths rest prefix"
| "leaf_paths ((k, Leaf v) # rest) prefix = (prefix @ [k]) # leaf_paths rest prefix"

section \<open>Unfolding the definitions on concrete inputs\<close>

lemmas string_defs = HasPrefix_def Split_def Trim_def manyMarker_def prefixKey_def

lemmas type_defs = typeIntPattern_def typeFloatPattern_def typeSlicePattern_def
  isCompatibleType_def

lemmas norm_defs = to_int64_def convertInt_def convertFloat_def generalizeScalarType_def
  elem_string_def elem_int_def elem_float_def elem_bool_def int_list_types_def typed_list_def
  generalizeType_def maybeMakeInterfaceList_def

lemmas resolve_defs = getDefaultByKeys_def getDefaultByKey_def

lemmas valid_defs = dk_member_def dk_delete_def check_leaf_def validationChecker_def

lemmas store_defs = open_config_def decode_def Open_def splitKey_def load_val_def get_def
  bucket_callbacks_def gatherCallbacks_def materialize_def run_validator_def setLocked_def
  collect_key_def Config_keys_def Keys_def IsDefault_def

lemmas eval_defs = Let_def string_defs type_defs norm_defs resolve_defs valid_defs store_defs
  plain_entry_def

section \<open>Facts about values\<close>



section \<open>Setting a key to the value it holds\<close>




section \<open>A reload that fails\<close>

text \<open>
  C2 at a failing input. The store is opened from no input and \<^verbatim>\<open>a\<close> is set to
  \<^verbatim>\<open>"y"\<close>, so no key is default-sourced. \<^verbatim>\<open>Reload\<close> of \<^verbatim>\<open>{"m": {"foo": {}}}\<close> fails in
  the defaulting pass (at the unsupported default under \<^verbatim>\<open>m.foo\<close>), after that pass has
  recorded \<^verbatim>\<open>a\<close> in the store's set of default keys: the data tree and the version are
  as before, the set of default-sourced keys is not.
\<close>

theorem C2_failed_reload_changes_default_keys:
  "Open None reload_defaults = Inr reload_store0
   \<and> SetString reload_store0 ''a'' ''y'' = (None, reload_store, [Lock, Unlock])
   \<and> \<not> IsDefault reload_store ''a''
   \<and> Reload reload_store (Some (Inr (1, reload_input))) =
       (Some (Error ''validate: unsupported list type''),
        reload_store\<lparr>defaultKeys := Some {''a''}\<rparr>, [Lock, Unlock])
   \<and> IsDefault (reload_store\<lparr>defaultKeys := Some {''a''}\<rparr>) ''a''"
  by (simp add: eval_defs SetString_def Reload_def reload_defaults_def reload_store0_def
      reload_store_def reload_input_def)

section \<open>Merging a key the target does not hold\<close>

text \<open>
  C3 at a failing input. The source holds \<^verbatim>\<open>m.x.path\<close> explicitly with the value
  \<^verbatim>\<open>"p"\<close>, the target reads the default \<^verbatim>\<open>""\<close> there. \<^verbatim>\<open>Merge\<close> walks the keys held in
  the target's tree only: it succeeds and leaves the target as it was.
\<close>

theorem C3_merge_skips_unmaterialized_key:
  "Open None merge_defaults = Inr merge_target
   \<and> Open (Some (Inr (0, [(''m'', Sect [(''x'', Sect [(''path'', Leaf (VString ''p''))])])])))
        merge_defaults = Inr merge_source
   \<and> get merge_source ''m.x.path'' = Inr (VString ''p'')
   \<and> \<not> IsDefault merge_source ''m.x.path''
   \<and> get merge_target ''m.x.path'' = Inr (VString [])
   \<and> Merge merge_target merge_source = (None, merge_target, [Lock, Unlock])"
  by (simp add: eval_defs DeepEqual_defaults_def Merge_def merge_defaults_def merge_target_def
      merge_source_def)

section \<open>Callbacks and the lock\<close>

text \<open>
  C4 at a failing input. With a callback registered for \<^verbatim>\<open>a\<close>, a reload that changes
  \<^verbatim>\<open>a\<close> calls it between taking and releasing the lock; \<^verbatim>\<open>SetInt\<close> on the same store
  calls it after the release.
\<close>

theorem C4_reload_calls_back_under_lock:
  "AddEvent store_a ''a'' 7 = Inr (store_a_sub, 0)
   \<and> Reload store_a_sub (Some (Inr (0, [(''a'', Leaf (VInt IInt 2))]))) =
       (None, store_a_sub\<lparr>memory := [(''a'', Leaf (VInt IInt64 2))]\<rparr>,
        [Lock, Call event_a, Unlock])
   \<and> SetInt store_a_sub ''a'' 2 =
       (None, store_a_sub\<lparr>memory := [(''a'', Leaf (VInt IInt64 2))], defaultKeys := Some {}\<rparr>,
        [Lock, Unlock, Call event_a])"
  by (simp add: eval_defs AddEvent_def SetInt_def Reload_def defaults_a_def store_a_def
      store_a_sub_def event_a_def)

section \<open>Resetting a single key\<close>

text \<open>
  C5 at a failing input. \<^verbatim>\<open>Reset("a.b")\<close> on a store whose \<^verbatim>\<open>a.b\<close> is an entry stores
  a new top-level key \<^verbatim>\<open>a.b\<close> in the store's default mapping, which is not deep-equal to
  the mapping the store was created with afterwards.
\<close>

theorem C5_reset_writes_into_defaults:
  "Open (Some (Inr (0, [(''a'', Sect [(''b'', Leaf (VString ''y''))])]))) reset_defaults
     = Inr reset_store
   \<and> Reset reset_store ''a.b'' =
       (None,
        reset_store\<lparr>defaults := reset_defaults @ [(''a.b'', DOther)],
                     memory := [(''a'', Sect [(''b'', Leaf (VString ''x''))])]\<rparr>,
        [Lock, Unlock, Lock, Unlock])
   \<and> \<not> DeepEqual_defaults (reset_defaults @ [(''a.b'', DOther)]) reset_defaults"
  by (simp add: eval_defs Reset_def DeepEqual_defaults_def reset_defaults_def reset_store_def)

section \<open>Canonical leaves\<close>

subsection \<open>Storing into a tree of canonical leaves\<close>













subsection \<open>The normal form of a value\<close>














subsection \<open>Validation and defaulting\<close>





text \<open>The values the typed setters hand to \<^verbatim>\<open>setLocked\<close> are canonical.\<close>

lemma typed_setter_values_canonical:
  "canonical (VBool b)" "canonical (VString s)" "canonical (VInt IInt64 n)"
  "canonical (VFloat FFloat64 x)" "canonical (VSlice TBool (map VBool bs))"
  "canonical (VSlice TString (map VString ss))"
  "canonical (VSlice (TInt IInt64) (map (VInt IInt64) ns))"
  "canonical (VSlice (TFloat FFloat64) (map (VFloat FFloat64) xs))"
  by (simp_all add: list_all_iff)




section \<open>The registry of a section view\<close>

lemma copy_bucket_spec:
  "copy_bucket b n = (c, n') \<Longrightarrow>
     n' = n + length b \<and> map snd c = map snd b \<and> map fst c = [n ..< n + length b]"
proof (induction b arbitrary: n c n')
  case Nil
  then show ?case by simp
next
  case (Cons p b)
  obtain i cb where p: "p = (i, cb)" by (cases p)
  obtain c1 n1 where c1: "copy_bucket b (n + 1) = (c1, n1)" by (cases "copy_bucket b (n + 1)")
  from Cons.prems p c1 have c: "c = (n, cb) # c1" and n': "n' = n1" by simp_all
  from Cons.IH [OF c1] have n1: "n1 = n + 1 + length b" and ev: "map snd c1 = map snd b"
    and ids: "map fst c1 = [n + 1 ..< n + 1 + length b]" by blast+
  have "map fst c = n # map fst c1" using c by simp
  also have "\<dots> = n # [n + 1 ..< n + 1 + length b]" by (simp only: ids)
  also have "\<dots> = [n ..< n + length (p # b)]" by (simp add: upt_conv_Cons del: upt_Suc)
  finally have "map fst c = [n ..< n + length (p # b)]" .
  moreover have "n' = n + length (p # b)" using n' n1 by simp
  moreover have "map snd c = map snd (p # b)" using c p ev by simp
  ultimately show ?case by blast
qed

lemma copy_buckets_spec:
  "copy_buckets r n = (c, n') \<Longrightarrow>
     n' = n + length (concat (map snd r))
     \<and> map fst c = map fst r
     \<and> map (\<lambda>(k, b). map snd b) c = map (\<lambda>(k, b). map snd b) r
     \<and> concat (map (\<lambda>(k, b). map fst b) c) = [n ..< n + length (concat (map snd r))]"
proof (induction r arbitrary: n c n')
  case Nil
  then show ?case by simp
next
  case (Cons p r)
  obtain k b where p: "p = (k, b)" by (cases p)
  obtain c1 n1 where c1: "copy_bucket b n = (c1, n1)" by (cases "copy_bucket b n")
  obtain cs n2 where cs: "copy_buckets r n1 = (cs, n2)" by (cases "copy_buckets r n1")
  from Cons.prems p c1 cs have c: "c = (k, c1) # cs" and n': "n' = n2" by simp_all
  from copy_bucket_spec [OF c1] have n1: "n1 = n + length b" and ev1: "map snd c1 = map snd b"
    and ids1: "map fst c1 = [n ..< n + length b]" by blast+
  from Cons.IH [OF cs] have n2: "n2 = n1 + length (concat (map snd r))"
    and ks: "map fst cs = map fst r"
    and evs: "map (\<lambda>(k, b). map snd b) cs = map (\<lambda>(k, b). map snd b) r"
    and ids: "concat (map (\<lambda>(k, b). map fst b) cs) = [n1 ..< n1 + length (concat (map snd r))]"
    by blast+
  have split: "[n ..< n + length b + length (concat (map snd r))]
      = [n ..< n + length b] @ [n + length b ..< n + length b + length (concat (map snd r))]"
    by (rule upt_add_eq_append) simp
  have "concat (map (\<lambda>(k, b). map fst b) c)
      = map fst c1 @ concat (map (\<lambda>(k, b). map fst b) cs)" using c by simp
  also have "\<dots> = [n ..< n + length b] @ [n + length b ..< n + length b + length (concat (map snd r))]"
    by (simp only: ids1 ids n1)
  also have "\<dots> = [n ..< n + length (concat (map snd (p # r)))]"
    using split p by (simp add: add.assoc)
  finally have "concat (map (\<lambda>(k, b). map fst b) c) = [n ..< n + length (concat (map snd (p # r)))]" .
  moreover have "n' = n + length (concat (map snd (p # r)))" using n' n2 n1 p by simp
  moreover have "map fst c = map fst (p # r)" using c p ks by simp
  moreover have "map (\<lambda>(k, b). map snd b) c = map (\<lambda>(k, b). map snd b) (p # r)"
    using c p ev1 evs by simp
  ultimately show ?case by blast
qed

text \<open>
  C7, as the code has it: the registry of the view \<^verbatim>\<open>Section(prefix)\<close> returns has the
  buckets of the parent under the same keys, each with the parent's callbacks in the same
  order; the copies are numbered consecutively from the parent's counter, and the view's
  counter is the parent's plus the number of subscriptions copied.
\<close>

theorem C7_section_copies_subscriptions:
  "map fst (changeCallbacks (Section cfg sec)) = map fst (changeCallbacks cfg)
   \<and> map (\<lambda>(k, b). map snd b) (changeCallbacks (Section cfg sec))
       = map (\<lambda>(k, b). map snd b) (changeCallbacks cfg)
   \<and> concat (map (\<lambda>(k, b). map fst b) (changeCallbacks (Section cfg sec)))
       = [callbackCount cfg ..< callbackCount cfg + length (concat (map snd (changeCallbacks cfg)))]
   \<and> callbackCount (Section cfg sec)
       = callbackCount cfg + length (concat (map snd (changeCallbacks cfg)))"
proof -
  obtain c n where c: "copy_buckets (changeCallbacks cfg) (callbackCount cfg) = (c, n)"
    by (cases "copy_buckets (changeCallbacks cfg) (callbackCount cfg)")
  show ?thesis
    using c copy_buckets_spec [OF c] by (simp add: Section_def)
qed

text \<open>
  The store \<open>store_a\<close> with one subscription for \<^verbatim>\<open>a\<close> (id 0, counter 1): the registry
  of its view \<^verbatim>\<open>Section("fs")\<close> holds that subscription under the id 1, and the view's
  counter is 2.
\<close>

theorem C7_view_registry_counterexample:
  "AddEvent store_a ''a'' 7 = Inr (store_a_sub, 0)
   \<and> changeCallbacks (Section store_a_sub ''fs'') = [(''a'', [(1, event_a)])]
   \<and> callbackCount store_a_sub = 1
   \<and> callbackCount (Section store_a_sub ''fs'') = 2"
  by (simp add: eval_defs AddEvent_def Section_def defaults_a_def store_a_def
      store_a_sub_def event_a_def)

section \<open>Keys of a section view\<close>

text \<open>
  C8, as the code has it: on a view made from a root store with a non-empty prefix,
  \<^verbatim>\<open>IsValidKey(k)\<close> is \<^verbatim>\<open>IsValidKey\<close> on the root of the prefix and \<open>k\<close>, both without
  their leading and trailing dots, joined by a dot.
\<close>

theorem C8_view_IsValidKey:
  assumes "section cfg = []" and "sec \<noteq> []"
  shows "IsValidKey (Section cfg sec) k = IsValidKey cfg (Trim sec @ ''.'' @ Trim k)"
  using assms by (simp add: IsValidKey_def Section_def prefixKey_def split: prod.splits)

theorem C8_view_IsValidKey_witness:
  "section section_store = [] \<and> ''a'' \<noteq> []
   \<and> IsValidKey (Section section_store ''a'') ''b.c'' = Inr True
   \<and> IsValidKey section_store (Trim ''a'' @ ''.'' @ Trim ''b.c'') = Inr True"
proof -
  have h1: "section section_store = []"
    by (simp add: section_store_def)
  have h2: "''a'' \<noteq> []"
    by simp
  have "IsValidKey section_store (Trim ''a'' @ ''.'' @ Trim ''b.c'') = Inr True"
    by (simp add: eval_defs IsValidKey_def section_defaults_def section_store_def)
  with C8_view_IsValidKey [OF h1 h2, of "''b.c''"] h1 show ?thesis
    by simp
qed

text \<open>
  The store opened from no input with the defaults \<^verbatim>\<open>{"a": {"b": {"c": "x"}}}\<close> and
  its view \<^verbatim>\<open>Section("a")\<close>: \<^verbatim>\<open>Keys()\<close> on the view returns the full path \<^verbatim>\<open>a.b.c\<close>, and
  \<^verbatim>\<open>IsValidKey("b.c.")\<close> holds on the view while \<^verbatim>\<open>IsValidKey("a.b.c.")\<close> does not on the
  root.
\<close>

theorem C8_view_keys_counterexample:
  "Open None section_defaults = Inr section_store
   \<and> Keys (Section section_store ''a'') = Inr [''a.b.c'']
   \<and> IsValidKey (Section section_store ''a'') ''b.c.'' = Inr True
   \<and> IsValidKey section_store (''a'' @ ''.'' @ ''b.c.'') = Inr False"
  by (simp add: eval_defs IsValidKey_def Section_def section_defaults_def section_store_def)

section \<open>Casting to a list\<close>

text \<open>
  C9 at a failing input. For the key \<^verbatim>\<open>string_slice\<close>, whose default is a list of
  strings, \<^verbatim>\<open>Cast\<close> of the text \<^verbatim>\<open>c ;; b ;; a\<close> returns \<^verbatim>\<open>nil\<close> and no error, whatever
  the parsers of the library do.
\<close>

theorem C9_cast_list_returns_nil:
  "Open None cast_defaults = Inr cast_store
   \<and> Cast ps cast_store ''string_slice'' ''c ;; b ;; a'' = Inr VNil"
  by (simp add: eval_defs Cast_def cast_defaults_def cast_store_def)

section \<open>The list of keys\<close>

lemma keys_collect:
  "keys t prefix (collect_key sec) acc =
     Inr (t, acc @ filter (\<lambda>f. HasPrefix f sec) (map Join (leaf_paths t prefix)))"
  by (induction t prefix arbitrary: acc rule: leaf_paths.induct)
    (simp_all add: collect_key_def Let_def)

lemma Config_keys_paths:
  "Config_keys cfg =
     Inr (sort (filter (\<lambda>f. HasPrefix f (section cfg)) (map Join (leaf_paths (memory cfg) []))))"
  by (simp add: Config_keys_def keys_collect)

lemma leaf_paths_Cons:
  "mset (leaf_paths ((k, n) # ts) p) = mset (leaf_paths [(k, n)] p) + mset (leaf_paths ts p)"
  by (cases n) simp_all

lemma take_entry_paths:
  "take_entry k us = Some (m, us') \<Longrightarrow>
     mset (leaf_paths us p) = mset (leaf_paths [(k, m)] p) + mset (leaf_paths us' p)"
proof (induction us arbitrary: us')
  case Nil
  then show ?case by simp
next
  case (Cons e us)
  obtain k' n where e: "e = (k', n)" by (cases e)
  show ?case
  proof (cases "k = k'")
    case True
    with Cons.prems e have "m = n" "us' = us" by simp_all
    with e show ?thesis using leaf_paths_Cons [of k' n us p] True by simp
  next
    case False
    with Cons.prems e obtain r where r: "take_entry k us = Some (m, r)" and us': "us' = (k', n) # r"
      by (auto split: option.splits)
    from Cons.IH [OF r] show ?thesis
      using e us' leaf_paths_Cons [of k' n us p] leaf_paths_Cons [of k' n r p] by simp
  qed
qed

lemma eqv_paths:
  "tree_eqv ts us \<Longrightarrow> mset (leaf_paths ts p) = mset (leaf_paths us p)"
  "node_eqv n m \<Longrightarrow> mset (leaf_paths [(k, n)] p) = mset (leaf_paths [(k, m)] p)"
proof (induction ts us and n m arbitrary: p and p k rule: tree_eqv_node_eqv.induct)
  case (1 us)
  then show ?case by simp
next
  case (2 k' n ts us)
  from "2.prems" obtain m us' where t: "take_entry k' us = Some (m, us')"
    and n: "node_eqv n m" and r: "tree_eqv ts us'"
    by (auto split: option.splits)
  have "mset (leaf_paths [(k', n)] p) = mset (leaf_paths [(k', m)] p)"
    using "2.IH"(1) [OF t refl n] .
  moreover have "mset (leaf_paths ts p) = mset (leaf_paths us' p)"
    using "2.IH"(2) [OF t refl r] .
  ultimately show ?case
    using take_entry_paths [OF t, of p] leaf_paths_Cons [of k' n ts p] by simp
next
  case (3 v m)
  then show ?case by simp
next
  case (4 s m)
  then obtain s' where m: "m = Sect s'" and s: "tree_eqv s s'"
    by (auto split: node.splits)
  from "4.IH" [OF m s] show ?case using m by simp
qed

text \<open>
  C10, as the code has it: \<^verbatim>\<open>Keys()\<close> always returns a list; it holds the dotted
  paths of the leaves of the data tree that start with the handle's section, each as
  often as it occurs; the list is sorted, and it is strictly sorted exactly when no path
  occurs twice in it. The list does not depend on
  the order in which the maps are visited: two stores whose trees are the same maps (and
  whose section is the same) return the same list.
\<close>

theorem C10_keys_sorted:
  assumes "tree_eqv (memory cfg) (memory cfg')" and "section cfg' = section cfg"
  shows "\<exists>ks. Keys cfg = Inr ks \<and> Keys cfg' = Inr ks
    \<and> mset ks = mset (filter (\<lambda>f. HasPrefix f (section cfg))
                          (map Join (leaf_paths (memory cfg) [])))
    \<and> sorted ks \<and> (sorted_wrt (<) ks \<longleftrightarrow> distinct ks)"
proof -
  let ?sel = "\<lambda>c. filter (\<lambda>f. HasPrefix f (section cfg)) (map Join (leaf_paths (memory c) []))"
  have "mset (?sel cfg) = mset (?sel cfg')"
    using eqv_paths(1) [OF assms(1), of "[]"] by (metis mset_filter mset_map)
  then have "sort (?sel cfg) = sort (?sel cfg')"
    by (metis properties_for_sort mset_sort sorted_sort)
  then have "Keys cfg = Inr (sort (?sel cfg))" "Keys cfg' = Inr (sort (?sel cfg))"
    using assms(2) by (simp_all add: Keys_def Config_keys_paths)
  moreover have "sorted (sort (?sel cfg))" by simp
  ultimately show ?thesis
    by (auto simp: strict_sorted_iff)
qed

theorem C10_keys_sorted_witness:
  "tree_eqv (memory store_ba) (memory store_ab) \<and> section store_ab = section store_ba
   \<and> Keys store_ba = Inr [''a'', ''b''] \<and> Keys store_ab = Inr [''a'', ''b'']
   \<and> sorted_wrt (<) [''a'', ''b'']"
proof -
  have h1: "tree_eqv (memory store_ba) (memory store_ab)"
    by (simp add: store_ba_def store_ab_def)
  have h2: "section store_ab = section store_ba"
    by (simp add: store_ab_def)
  have k: "Keys store_ba = Inr [''a'', ''b'']"
    by (simp add: eval_defs store_ba_def)
  from C10_keys_sorted [OF h1 h2] k have "Keys store_ab = Inr [''a'', ''b'']"
    by auto
  with h1 h2 k show ?thesis by simp
qed

text \<open>
  The store opened from the input \<^verbatim>\<open>{"a.b": 5}\<close> with the defaults \<^verbatim>\<open>{"a": {"b": 1}}\<close>
  holds the leaf \<^verbatim>\<open>a.b\<close> of the input and the default under \<^verbatim>\<open>a\<close>, \<^verbatim>\<open>b\<close>: \<^verbatim>\<open>Keys()\<close>
  returns \<^verbatim>\<open>a.b\<close> twice.
\<close>

theorem C10_duplicate_key_counterexample:
  "Open (Some (Inr (0, [(''a.b'', Leaf (VInt IInt 5))]))) dotted_defaults = Inr dotted_store
   \<and> Keys dotted_store = Inr [''a.b'', ''a.b'']
   \<and> \<not> sorted_wrt (<) [''a.b'', ''a.b'']"
  by (simp add: eval_defs dotted_defaults_def dotted_store_def)

end
